theory Spec2Isabelle
  imports Complex_Main "HOL-Library.AList"
begin

section \<open>Data model (types/suno.ts)\<close>

text \<open>
  The status of a track is the string union
  \<^verbatim>\<open>'submitted' | 'queued' | 'streaming' | 'complete' | 'error'\<close>;
  the status of the hook is \<^verbatim>\<open>SunoGenerationStatus\<close>.
\<close>

datatype suno_status = T_submitted | T_queued | T_streaming | T_complete | T_error

datatype gen_status = S_idle | S_generating | S_polling | S_completed | S_error

text \<open>
  \<^verbatim>\<open>SunoTrack\<close>. The hook and the service read only \<^verbatim>\<open>id\<close> and \<^verbatim>\<open>status\<close>; the
  other fields kept here travel with the track unchanged (the remaining display fields of
  the interface behave like \<^verbatim>\<open>title\<close>). \<^verbatim>\<open>CachedTrack extends SunoTrack\<close> is the record
  extension. \<^verbatim>\<open>cached_at\<close> is written by the code as \<^verbatim>\<open>new Date().toISOString()\<close> and
  read back through \<^verbatim>\<open>new Date(cached_at).getTime()\<close>: it is modelled by the millisecond
  timestamp that the ISO string denotes.
\<close>

record track =
  track_id :: string
  title :: string
  prompt :: string
  audio_url :: "string option"
  created_at :: string
  track_status :: suno_status

record cached_track = track +
  cached_at :: int
  local_id :: string

record api_error =
  err_code :: string
  err_message :: string
  err_status :: "nat option"

text \<open>\<^verbatim>\<open>SunoApiResponse<T>\<close>: both fields are optional in the interface.\<close>

record 'a response =
  resp_data :: "'a option"
  resp_error :: "api_error option"

text \<open>
  \<^verbatim>\<open>GenerationResponse\<close> and \<^verbatim>\<open>ExtendTrackResponse\<close>: the hook reads \<^verbatim>\<open>id\<close> and
  \<^verbatim>\<open>clips\<close> of either.
\<close>

record generation =
  gen_id :: string
  clips :: "track list"

record lyrics =
  lyrics_id :: string
  lyrics_text :: string
  lyrics_title :: string

record gen_options =
  opt_model :: "string option"
  opt_make_instrumental :: "bool option"
  opt_wait_audio :: "bool option"
  opt_tags :: "string option"
  opt_title :: "string option"

record extend_options =
  ext_continueAt :: "nat option"
  ext_tags :: "string option"
  ext_title :: "string option"
  ext_makeInstrumental :: "bool option"

text \<open>JavaScript truthiness of a string: the empty string is falsy.\<close>

definition truthy :: "string \<Rightarrow> bool" where
  "truthy s = (s \<noteq> [])"

section \<open>The hook's state (hooks/useSunoGeneration)\<close>

text \<open>
  The calls of the hook to the remote service. A call is appended to \<open>sent\<close> when it is
  issued and stays in \<open>inflight\<close> until the awaited promise settles.
\<close>

datatype request =
    ReqGenerate string gen_options
  | ReqExtend string string extend_options
  | ReqGetTracks "string list"
  | ReqGetTrack string
  | ReqLyrics string
  | ReqCancel string

record config =
  maxCachedTracks :: nat
  pollInterval :: nat
  maxPollAttempts :: nat
  autoStartPolling :: bool

definition default_config :: config where
  "default_config =
     \<lparr>maxCachedTracks = 50, pollInterval = 5000, maxPollAttempts = 60,
      autoStartPolling = True\<rparr>"

text \<open>
  The six \<^verbatim>\<open>useState\<close> cells and the two refs of the hook, together with the world the
  hook acts on: the AsyncStorage key-value store (an association list in the order of
  \<^verbatim>\<open>getAllKeys\<close>) and the remote calls. \<open>pollTimeoutRef\<close> is \<open>Some ids\<close> while a timer
  set by \<^verbatim>\<open>setTimeout(() => pollForCompletion(ids), pollInterval)\<close> is pending.
  \<open>progress\<close> is a JavaScript number; it is modelled by the rational number it stands for.
  The calls to AsyncStorage are taken to succeed, and to take effect within the run of
  JavaScript that makes them; the \<^verbatim>\<open>catch\<close> blocks that only log a storage failure have
  no counterpart here. \<^verbatim>\<open>maxCachedTracks\<close> and \<^verbatim>\<open>maxPollAttempts\<close> are counts.
\<close>

record manager =
  status :: gen_status
  progress :: rat
  tracks :: "track list"
  error :: "string option"
  generationId :: "string option"
  cachedTracks :: "cached_track list"
  pollTimeoutRef :: "string list option"
  pollAttemptsRef :: nat
  storage :: "(string \<times> string) list"
  inflight :: "request list"
  sent :: "request list"

definition initial_manager :: manager where
  "initial_manager =
     \<lparr>status = S_idle, progress = 0, tracks = [], error = None, generationId = None,
      cachedTracks = [], pollTimeoutRef = None, pollAttemptsRef = 0, storage = [],
      inflight = [], sent = []\<rparr>"

text \<open>
  \<^verbatim>\<open>JSON.stringify\<close> and \<^verbatim>\<open>JSON.parse\<close> on cached tracks are library functions, taken
  as parameters. \<open>parse J s = Some c\<close> stands for \<^verbatim>\<open>JSON.parse(s)\<close> returning the cached
  track \<open>c\<close>, as the annotation \<^verbatim>\<open>const cachedTrack: CachedTrack = JSON.parse(...)\<close>
  takes for granted; \<open>parse J s = None\<close> stands for the statement throwing (\<^verbatim>\<open>JSON.parse\<close>
  rejects \<open>s\<close>, the empty string included, or returns \<^verbatim>\<open>null\<close>, whose \<^verbatim>\<open>cached_at\<close>
  cannot be read).
\<close>

record json =
  stringify :: "cached_track \<Rightarrow> string"
  parse :: "string \<Rightarrow> cached_track option"

subsection \<open>AsyncStorage\<close>

definition getItem :: "(string \<times> string) list \<Rightarrow> string \<Rightarrow> string option" where
  "getItem st k = map_of st k"

definition setItem :: "string \<Rightarrow> string \<Rightarrow> (string \<times> string) list \<Rightarrow> (string \<times> string) list" where
  "setItem k v st = AList.update k v st"

definition removeItem :: "string \<Rightarrow> (string \<times> string) list \<Rightarrow> (string \<times> string) list" where
  "removeItem k st = AList.delete k st"

definition getAllKeys :: "(string \<times> string) list \<Rightarrow> string list" where
  "getAllKeys st = map fst st"


fun multiRemove :: "string list \<Rightarrow> (string \<times> string) list \<Rightarrow> (string \<times> string) list" where
  "multiRemove [] st = st"
| "multiRemove (k # ks) st = multiRemove ks (removeItem k st)"

definition startsWith :: "string \<Rightarrow> string \<Rightarrow> bool" where
  "startsWith s p = (take (length p) s = p)"

subsection \<open>Cache management\<close>

definition CACHE_KEY_PREFIX :: string where
  "CACHE_KEY_PREFIX = ''suno_track_''"

definition CACHE_EXPIRY_HOURS :: int where
  "CACHE_EXPIRY_HOURS = 24"

definition getCacheKey :: "string \<Rightarrow> string" where
  "getCacheKey trackId = CACHE_KEY_PREFIX @ trackId"

text \<open>
  \<open>now\<close> is the value of \<^verbatim>\<open>new Date()\<close> in milliseconds; within one call of
  \<^verbatim>\<open>getCachedTrack\<close> or \<^verbatim>\<open>refreshCachedTracks\<close> one reading stands for all.
\<close>

definition isCacheExpired :: "int \<Rightarrow> int \<Rightarrow> bool" where
  "isCacheExpired now cachedAt =
     (let expiryTime = cachedAt + CACHE_EXPIRY_HOURS * 60 * 60 * 1000
      in now > expiryTime)"

text \<open>
  \<^verbatim>\<open>getCachedTrack\<close>: \<^verbatim>\<open>if (!cached) return null\<close> covers the absent key and the empty
  string; a \<^verbatim>\<open>JSON.parse\<close> that throws lands in the \<^verbatim>\<open>catch\<close>, which returns \<^verbatim>\<open>null\<close>
  and removes nothing.
\<close>

definition getCachedTrack :: "json \<Rightarrow> int \<Rightarrow> string \<Rightarrow> manager \<Rightarrow> cached_track option \<times> manager" where
  "getCachedTrack J now trackId m =
     (case getItem (storage m) (getCacheKey trackId) of
        None \<Rightarrow> (None, m)
      | Some cached \<Rightarrow>
          if \<not> truthy cached then (None, m)
          else (case parse J cached of
                  None \<Rightarrow> (None, m)
                | Some cachedTrack \<Rightarrow>
                    if isCacheExpired now (cached_at cachedTrack)
                    then (None, m\<lparr>storage := removeItem (getCacheKey trackId) (storage m)\<rparr>)
                    else (Some cachedTrack, m)))"

text \<open>
  \<^verbatim>\<open>cacheTrack\<close>. \<open>now\<close> is \<^verbatim>\<open>new Date()\<close> at the call and \<open>lid\<close> the fresh
  \<^verbatim>\<open>local_...\<close> string. The object spread \<^verbatim>\<open>{...track, cached_at, local_id}\<close> is the record
  extension; \<^verbatim>\<open>slice(0, maxCachedTracks)\<close> is \<open>take\<close>.
\<close>

definition cachedEntry :: "track \<Rightarrow> int \<Rightarrow> string \<Rightarrow> cached_track" where
  "cachedEntry t now lid = track.extend t (cached_track.fields now lid)"

definition cacheTrack :: "config \<Rightarrow> json \<Rightarrow> int \<Rightarrow> string \<Rightarrow> track \<Rightarrow> manager \<Rightarrow> manager" where
  "cacheTrack cfg J now lid t m =
     (let cachedTrack = cachedEntry t now lid;
          updated = cachedTrack # filter (\<lambda>c. track_id c \<noteq> track_id t) (cachedTracks m)
      in m\<lparr>storage := setItem (getCacheKey (track_id t)) (stringify J cachedTrack) (storage m),
            cachedTracks := take (maxCachedTracks cfg) updated\<rparr>)"

definition clearCache :: "manager \<Rightarrow> manager" where
  "clearCache m =
     (let keys = getAllKeys (storage m);
          trackKeys = filter (\<lambda>key. startsWith key CACHE_KEY_PREFIX) keys
      in m\<lparr>storage := multiRemove trackKeys (storage m), cachedTracks := []\<rparr>)"



subsection \<open>Polling\<close>

text \<open>
  What an \<^verbatim>\<open>await\<close> on a remote call yields: the promise rejects with a thrown value
  (\<open>Some msg\<close> when it is an \<^verbatim>\<open>Error\<close> with that message) or fulfils with a value.
\<close>

datatype 'a awaited = Threw "string option" | Resolved 'a

text \<open>\<^verbatim>\<open>error instanceof Error ? error.message : fallback\<close>\<close>

definition thrownMessage :: "string option \<Rightarrow> string \<Rightarrow> string" where
  "thrownMessage e fallback = (case e of Some msg \<Rightarrow> msg | None \<Rightarrow> fallback)"

definition TIMEOUT_MESSAGE :: string where
  "TIMEOUT_MESSAGE = ''Generation timed out. Please try again.''"

definition isTerminal :: "track \<Rightarrow> bool" where
  "isTerminal t = (track_status t = T_complete \<or> track_status t = T_error)"

definition issue :: "request \<Rightarrow> manager \<Rightarrow> manager" where
  "issue r m = m\<lparr>inflight := inflight m @ [r], sent := sent m @ [r]\<rparr>"

text \<open>
  \<^verbatim>\<open>pollForCompletion\<close> runs in two atomic parts, split at its only remote \<^verbatim>\<open>await\<close>.
  The first part is the attempt check and the sending of \<^verbatim>\<open>sunoApi.getTracks\<close>.
\<close>

definition pollForCompletion_call :: "config \<Rightarrow> string list \<Rightarrow> manager \<Rightarrow> manager" where
  "pollForCompletion_call cfg trackIds m =
     (if pollAttemptsRef m \<ge> maxPollAttempts cfg
      then m\<lparr>error := Some TIMEOUT_MESSAGE, status := S_error\<rparr>
      else issue (ReqGetTracks trackIds) m)"

text \<open>
  The loop \<^verbatim>\<open>for (const track of completedTracks) await cacheTrack(track)\<close>; the \<open>i\<close>-th
  call reads the clock and draws its local id as \<open>stamp i\<close>.
\<close>

fun cacheAll :: "config \<Rightarrow> json \<Rightarrow> (nat \<Rightarrow> int \<times> string) \<Rightarrow> nat \<Rightarrow> track list \<Rightarrow> manager \<Rightarrow> manager" where
  "cacheAll cfg J stamp i [] m = m"
| "cacheAll cfg J stamp i (t # ts) m =
     cacheAll cfg J stamp (Suc i) ts (cacheTrack cfg J (fst (stamp i)) (snd (stamp i)) t m)"

text \<open>
  The second part runs when the promise of \<^verbatim>\<open>getTracks\<close> settles. For an empty
  \<^verbatim>\<open>updatedTracks\<close> the quotient is \<^verbatim>\<open>NaN\<close> in JavaScript and \<open>0\<close> here; \<^verbatim>\<open>every\<close> is
  then true, so the value is overwritten by \<open>100\<close> in the same step.
\<close>

definition pollForCompletion_resume ::
  "config \<Rightarrow> json \<Rightarrow> (nat \<Rightarrow> int \<times> string) \<Rightarrow> string list \<Rightarrow> track list response awaited
     \<Rightarrow> manager \<Rightarrow> manager" where
  "pollForCompletion_resume cfg J stamp trackIds result m =
     (case result of
        Threw e \<Rightarrow>
          m\<lparr>error := Some (thrownMessage e ''Polling failed''),
            status := S_error\<rparr>
      | Resolved response \<Rightarrow>
          (case resp_error response of
             Some e \<Rightarrow> m\<lparr>error := Some (err_message e), status := S_error\<rparr>
           | None \<Rightarrow>
               (let updatedTracks = (case resp_data response of Some ts \<Rightarrow> ts | None \<Rightarrow> []);
                    completedCount = length (filter isTerminal updatedTracks);
                    newProgress =
                      min ((of_nat completedCount / of_nat (length updatedTracks)) * 100) 100;
                    m1 = m\<lparr>tracks := updatedTracks, progress := newProgress\<rparr>;
                    allCompleted = list_all isTerminal updatedTracks
                in if allCompleted
                   then (let completedTracks =
                               filter (\<lambda>t. track_status t = T_complete) updatedTracks
                         in cacheAll cfg J stamp 0 completedTracks
                              (m1\<lparr>status := S_completed, progress := 100\<rparr>))
                   else m1\<lparr>pollAttemptsRef := pollAttemptsRef m1 + 1,
                           pollTimeoutRef := Some trackIds\<rparr>)))"

subsection \<open>Submitting\<close>

text \<open>
  \<^verbatim>\<open>generateMusic\<close>, split at \<^verbatim>\<open>await sunoApi.generateMusic(prompt, options)\<close>. The call
  to \<^verbatim>\<open>pollForCompletion\<close> is not awaited: its first part runs inside the same step.
\<close>

definition generateMusic_call :: "string \<Rightarrow> gen_options \<Rightarrow> manager \<Rightarrow> manager" where
  "generateMusic_call p options m =
     issue (ReqGenerate p options)
       (m\<lparr>status := S_generating, error := None, progress := 0, tracks := [],
          pollAttemptsRef := 0\<rparr>)"

definition generateMusic_resume :: "config \<Rightarrow> generation response awaited \<Rightarrow> manager \<Rightarrow> manager" where
  "generateMusic_resume cfg result m =
     (case result of
        Threw e \<Rightarrow>
          m\<lparr>error := Some (thrownMessage e ''Generation failed''),
            status := S_error\<rparr>
      | Resolved response \<Rightarrow>
          (case resp_error response of
             Some e \<Rightarrow> m\<lparr>error := Some (err_message e), status := S_error\<rparr>
           | None \<Rightarrow>
               (case resp_data response of
                  None \<Rightarrow> m\<lparr>error := Some ''No generation data received'', status := S_error\<rparr>
                | Some generation \<Rightarrow>
                    (let m1 = m\<lparr>generationId := Some (gen_id generation),
                                 tracks := clips generation,
                                 status := S_polling,
                                 progress := 10\<rparr>
                     in if autoStartPolling cfg
                        then pollForCompletion_call cfg (map track_id (clips generation)) m1
                        else m1))))"

text \<open>\<^verbatim>\<open>extendTrack\<close>, split at \<^verbatim>\<open>await sunoApi.extendTrack(trackId, prompt, options)\<close>.\<close>

definition extendTrack_call :: "string \<Rightarrow> string \<Rightarrow> extend_options \<Rightarrow> manager \<Rightarrow> manager" where
  "extendTrack_call trackId p options m =
     issue (ReqExtend trackId p options)
       (m\<lparr>status := S_generating, error := None, progress := 0\<rparr>)"

definition extendTrack_resume :: "config \<Rightarrow> generation response awaited \<Rightarrow> manager \<Rightarrow> manager" where
  "extendTrack_resume cfg result m =
     (case result of
        Threw e \<Rightarrow>
          m\<lparr>error := Some (thrownMessage e ''Extension failed''),
            status := S_error\<rparr>
      | Resolved response \<Rightarrow>
          (case resp_error response of
             Some e \<Rightarrow> m\<lparr>error := Some (err_message e), status := S_error\<rparr>
           | None \<Rightarrow>
               (case resp_data response of
                  None \<Rightarrow> m\<lparr>error := Some ''No extension data received'', status := S_error\<rparr>
                | Some extension \<Rightarrow>
                    (let m1 = m\<lparr>generationId := Some (gen_id extension),
                                 tracks := clips extension,
                                 status := S_polling,
                                 progress := 10\<rparr>
                     in if autoStartPolling cfg
                        then pollForCompletion_call cfg (map track_id (clips extension)) m1
                        else m1))))"

subsection \<open>Lyrics, single tracks, cancelling\<close>

definition generateLyrics_call :: "string \<Rightarrow> manager \<Rightarrow> manager" where
  "generateLyrics_call p m = issue (ReqLyrics p) m"

definition generateLyrics_resume :: "lyrics response awaited \<Rightarrow> manager \<Rightarrow> string option \<times> manager" where
  "generateLyrics_resume result m =
     (case result of
        Threw e \<Rightarrow>
          (None, m\<lparr>error := Some (thrownMessage e ''Lyrics generation failed'')\<rparr>)
      | Resolved response \<Rightarrow>
          (case resp_error response of
             Some e \<Rightarrow> (None, m\<lparr>error := Some (err_message e)\<rparr>)
           | None \<Rightarrow>
               (case resp_data response of
                  None \<Rightarrow> (None, m)
                | Some l \<Rightarrow> (if truthy (lyrics_text l) then Some (lyrics_text l) else None, m))))"



text \<open>
  \<^verbatim>\<open>cancelGeneration\<close>: the pending timer is cleared; with a truthy \<^verbatim>\<open>generationId\<close>
  the cancel request is sent and awaited, and the three resets run when it settles
  (a rejection skips them: the \<^verbatim>\<open>catch\<close> only logs); otherwise they run at once.
\<close>

definition cancelGeneration_call :: "manager \<Rightarrow> manager" where
  "cancelGeneration_call m =
     (let m1 = m\<lparr>pollTimeoutRef := None\<rparr>
      in case generationId m1 of
           None \<Rightarrow> m1\<lparr>status := S_idle, progress := 0, generationId := None\<rparr>
         | Some g \<Rightarrow>
             if truthy g then issue (ReqCancel g) m1
             else m1\<lparr>status := S_idle, progress := 0, generationId := None\<rparr>)"

definition cancelGeneration_resume :: "unit awaited \<Rightarrow> manager \<Rightarrow> manager" where
  "cancelGeneration_resume result m =
     (case result of
        Threw e \<Rightarrow> m
      | Resolved u \<Rightarrow> m\<lparr>status := S_idle, progress := 0, generationId := None\<rparr>)"

definition clearError :: "manager \<Rightarrow> manager" where
  "clearError m = m\<lparr>error := None\<rparr>"

definition clearTracks :: "manager \<Rightarrow> manager" where
  "clearTracks m = m\<lparr>tracks := []\<rparr>"

subsection \<open>The hook as a transition system\<close>

text \<open>
  One event is one uninterrupted run of JavaScript: a call of the caller up to its first
  remote \<^verbatim>\<open>await\<close>, the firing of the pending poll timer, or the continuation of a
  function when its awaited remote call settles. A settling event is enabled only while
  a matching request is in flight, the timer event only while a timer is pending.
\<close>

datatype event =
    GenerateMusic string gen_options
  | ExtendTrack string string extend_options
  | CancelGeneration
  | TimerFires
  | GenerateSettles "generation response awaited"
  | ExtendSettles "generation response awaited"
  | PollSettles "string list" "nat \<Rightarrow> int \<times> string" "track list response awaited"
  | CancelSettles "unit awaited"

fun isGenerate :: "request \<Rightarrow> bool" where
  "isGenerate (ReqGenerate p options) = True"
| "isGenerate r = False"

fun isExtend :: "request \<Rightarrow> bool" where
  "isExtend (ReqExtend t p options) = True"
| "isExtend r = False"

fun isCancel :: "request \<Rightarrow> bool" where
  "isCancel (ReqCancel g) = True"
| "isCancel r = False"

text \<open>Takes the oldest request satisfying \<open>P\<close> out of the list, if there is one.\<close>

fun settle :: "(request \<Rightarrow> bool) \<Rightarrow> request list \<Rightarrow> request list option" where
  "settle P [] = None"
| "settle P (r # rs) =
     (if P r then Some rs else map_option (\<lambda>rs'. r # rs') (settle P rs))"

definition step :: "config \<Rightarrow> json \<Rightarrow> manager \<Rightarrow> event \<Rightarrow> manager option" where
  "step cfg J m ev =
     (case ev of
        GenerateMusic p options \<Rightarrow> Some (generateMusic_call p options m)
      | ExtendTrack trackId p options \<Rightarrow> Some (extendTrack_call trackId p options m)
      | CancelGeneration \<Rightarrow> Some (cancelGeneration_call m)
      | TimerFires \<Rightarrow>
          (case pollTimeoutRef m of
             None \<Rightarrow> None
           | Some trackIds \<Rightarrow>
               Some (pollForCompletion_call cfg trackIds (m\<lparr>pollTimeoutRef := None\<rparr>)))
      | GenerateSettles result \<Rightarrow>
          map_option (\<lambda>rs. generateMusic_resume cfg result (m\<lparr>inflight := rs\<rparr>))
            (settle isGenerate (inflight m))
      | ExtendSettles result \<Rightarrow>
          map_option (\<lambda>rs. extendTrack_resume cfg result (m\<lparr>inflight := rs\<rparr>))
            (settle isExtend (inflight m))
      | PollSettles trackIds stamp result \<Rightarrow>
          map_option
            (\<lambda>rs. pollForCompletion_resume cfg J stamp trackIds result (m\<lparr>inflight := rs\<rparr>))
            (settle (\<lambda>r. r = ReqGetTracks trackIds) (inflight m))
      | CancelSettles result \<Rightarrow>
          map_option (\<lambda>rs. cancelGeneration_resume result (m\<lparr>inflight := rs\<rparr>))
            (settle isCancel (inflight m)))"

fun run :: "config \<Rightarrow> json \<Rightarrow> manager \<Rightarrow> event list \<Rightarrow> manager option" where
  "run cfg J m [] = Some m"
| "run cfg J m (ev # evs) =
     (case step cfg J m ev of None \<Rightarrow> None | Some m' \<Rightarrow> run cfg J m' evs)"

section \<open>The remote service wrapper (services/sunoApi.ts)\<close>

record service =
  apiKey :: "string option"
  lastRequestTime :: int

definition baseUrl :: string where
  "baseUrl = ''https://api.sunoapi.org''"

definition rateLimitDelay :: int where
  "rateLimitDelay = 1000"

text \<open>
  \<^verbatim>\<open>handleRateLimit\<close>: \<open>now\<close> is \<^verbatim>\<open>Date.now()\<close> on entry; after a wait of \<open>delay\<close> the
  clock is read again, taken to be \<open>now + delay\<close>.
\<close>

definition handleRateLimit :: "int \<Rightarrow> service \<Rightarrow> service" where
  "handleRateLimit now svc =
     (let timeSinceLastRequest = now - lastRequestTime svc
      in if timeSinceLastRequest < rateLimitDelay
         then (let delay = rateLimitDelay - timeSinceLastRequest
               in svc\<lparr>lastRequestTime := now + delay\<rparr>)
         else svc\<lparr>lastRequestTime := now\<rparr>)"

text \<open>The request objects that are passed through \<^verbatim>\<open>JSON.stringify\<close> as the body.\<close>

datatype req_body =
    GenerationRequest string "string option" "string option" bool bool string
  | ExtendTrackRequest string string "nat option" "string option" "string option" bool
  | LyricsRequest string

record http_request =
  url :: string
  http_method :: string
  authorization :: string
  content_type :: string
  http_body :: "req_body option"

text \<open>
  What \<^verbatim>\<open>fetch\<close> and \<^verbatim>\<open>response.json()\<close> do inside the \<^verbatim>\<open>try\<close> of \<^verbatim>\<open>makeRequest\<close>.
  \<open>FetchRejects\<close> and \<open>JsonRejects\<close> carry the message of the thrown value when it is an
  \<^verbatim>\<open>Error\<close>. \<open>Body d msg err\<close> is a parsed body: \<open>d\<close> is the body seen at the type of the
  data, \<open>msg\<close> and \<open>err\<close> are its \<^verbatim>\<open>message\<close> and \<^verbatim>\<open>error\<close> properties. A body on which
  reading a property throws ends in the same \<^verbatim>\<open>catch\<close> as \<open>JsonRejects\<close>.
\<close>

datatype 'a parsed = JsonRejects "string option" | Body 'a "string option" "string option"

datatype 'a fetched = FetchRejects "string option" | Responds bool nat "'a parsed"

text \<open>The decimal numeral that a template literal makes of a non-negative integer.\<close>

definition digit_char :: "nat \<Rightarrow> char" where
  "digit_char d = ''0123456789'' ! d"

fun string_of_nat :: "nat \<Rightarrow> string" where
  "string_of_nat n =
     (if n < 10 then [digit_char n]
      else string_of_nat (n div 10) @ [digit_char (n mod 10)])"

declare string_of_nat.simps [simp del]


definition NO_API_KEY_MESSAGE :: string where
  "NO_API_KEY_MESSAGE =
     ''Suno API key is not configured. Please set EXPO_PUBLIC_SUNO_API_KEY environment variable or call setApiKey().''"

definition failure :: "string \<Rightarrow> string \<Rightarrow> nat option \<Rightarrow> 'a response" where
  "failure code msg st =
     \<lparr>resp_data = None,
      resp_error = Some \<lparr>err_code = code, err_message = msg, err_status = st\<rparr>\<rparr>"

text \<open>
  \<^verbatim>\<open>makeRequest\<close>. \<open>net\<close> is the network: what \<^verbatim>\<open>fetch\<close> makes of the request.
  \<^verbatim>\<open>!this.apiKey\<close> holds for \<^verbatim>\<open>null\<close> and for the empty string.
  \<^verbatim>\<open>a || b || c\<close> on the error body takes the first truthy string.
\<close>

definition firstTruthy :: "string option \<Rightarrow> string option \<Rightarrow> string \<Rightarrow> string" where
  "firstTruthy a b c =
     (case a of
        Some x \<Rightarrow> if truthy x then x
                  else (case b of Some y \<Rightarrow> if truthy y then y else c | None \<Rightarrow> c)
      | None \<Rightarrow> (case b of Some y \<Rightarrow> if truthy y then y else c | None \<Rightarrow> c))"

definition sendRequest ::
  "string \<Rightarrow> service \<Rightarrow> int \<Rightarrow> (http_request \<Rightarrow> 'a fetched) \<Rightarrow> string \<Rightarrow> string \<Rightarrow> req_body option
     \<Rightarrow> 'a response \<times> service" where
  "sendRequest key svc now net endpoint method body =
     (let svc' = handleRateLimit now svc;
          req = \<lparr>url = baseUrl @ endpoint, http_method = method,
                 authorization = ''Bearer '' @ key,
                 content_type = ''application/json'', http_body = body\<rparr>
      in case net req of
           FetchRejects e \<Rightarrow>
             (failure ''NETWORK_ERROR'' (thrownMessage e ''Unknown network error'') None, svc')
         | Responds ok st (JsonRejects e) \<Rightarrow>
             (failure ''NETWORK_ERROR'' (thrownMessage e ''Unknown network error'') None, svc')
         | Responds ok st (Body responseData msg err) \<Rightarrow>
             if \<not> ok
             then (failure ''API_ERROR'' (firstTruthy msg err (''HTTP '' @ string_of_nat st))
                     (Some st), svc')
             else (\<lparr>resp_data = Some responseData, resp_error = None\<rparr>, svc'))"

definition makeRequest ::
  "service \<Rightarrow> int \<Rightarrow> (http_request \<Rightarrow> 'a fetched) \<Rightarrow> string \<Rightarrow> string \<Rightarrow> req_body option
     \<Rightarrow> 'a response \<times> service" where
  "makeRequest svc now net endpoint method body =
     (case apiKey svc of
        None \<Rightarrow> (failure ''NO_API_KEY'' NO_API_KEY_MESSAGE None, svc)
      | Some key \<Rightarrow>
          if \<not> truthy key then (failure ''NO_API_KEY'' NO_API_KEY_MESSAGE None, svc)
          else sendRequest key svc now net endpoint method body)"








definition api_checkApiStatus ::
  "service \<Rightarrow> int \<Rightarrow> (http_request \<Rightarrow> 'a fetched) \<Rightarrow> 'a response \<times> service" where
  "api_checkApiStatus svc now net = makeRequest svc now net ''/api/get_credits'' ''GET'' None"






section \<open>Auxiliary notions\<close>

text \<open>A list of cached tracks is ordered most recently cached first.\<close>

definition recent_first :: "cached_track list \<Rightarrow> bool" where
  "recent_first cs = sorted_wrt (\<lambda>a b. cached_at a \<ge> cached_at b) cs"

text \<open>The keys that the loop of \<^verbatim>\<open>refreshCachedTracks\<close> removes.\<close>

definition purged :: "json \<Rightarrow> int \<Rightarrow> (string \<times> string option) list \<Rightarrow> string \<Rightarrow> bool" where
  "purged J now items k =
     (\<exists>v. (k, Some v) \<in> set items \<and> truthy v \<and>
        (case parse J v of None \<Rightarrow> True | Some c \<Rightarrow> isCacheExpired now (cached_at c)))"

text \<open>The events that are not calls of the caller: the timer and the settling promises.\<close>

fun internal :: "event \<Rightarrow> bool" where
  "internal (GenerateMusic p options) = False"
| "internal (ExtendTrack trackId p options) = False"
| "internal CancelGeneration = False"
| "internal ev = True"


section \<open>Sample data\<close>

definition ex_track :: "string \<Rightarrow> suno_status \<Rightarrow> track" where
  "ex_track i s =
     \<lparr>track_id = i, title = ''Song'', prompt = ''upbeat pop about summer'', audio_url = None,
      created_at = ''2024-01-01'', track_status = s\<rparr>"

definition ex_cached :: "string \<Rightarrow> int \<Rightarrow> cached_track" where
  "ex_cached i stamp = cachedEntry (ex_track i T_complete) stamp ''local_1_x''"

text \<open>
  A codec for the samples: two strings parse to cached tracks, every other string is
  rejected, as \<^verbatim>\<open>JSON.parse\<close> rejects the empty string and \<^verbatim>\<open>{\<close>.
\<close>

definition ex_json :: json where
  "ex_json =
     \<lparr>stringify = (\<lambda>c. track_id c),
      parse = (\<lambda>s. if s = ''fresh'' then Some (ex_cached ''fresh'' 1000)
                    else if s = ''old'' then Some (ex_cached ''old'' 0)
                    else None)\<rparr>"

definition ex_store :: manager where
  "ex_store = initial_manager\<lparr>storage :=
      [(''suno_track_fresh'', ''fresh''), (''suno_track_old'', ''old''),
       (''suno_track_bad'', ''{''), (''suno_track_blank'', []), (''other'', ''x'')]\<rparr>"

definition ex_small :: config where
  "ex_small =
     \<lparr>maxCachedTracks = 2, pollInterval = 5000, maxPollAttempts = 1, autoStartPolling = True\<rparr>"

definition ex_full :: manager where
  "ex_full = initial_manager\<lparr>cachedTracks := [ex_cached ''b'' 200, ex_cached ''a'' 100]\<rparr>"


definition ex_stamp :: "nat \<Rightarrow> int \<times> string" where
  "ex_stamp i = (1000 + int i, ''local_1_x'')"


definition ex_options :: gen_options where
  "ex_options =
     \<lparr>opt_model = None, opt_make_instrumental = None, opt_wait_audio = None, opt_tags = None,
      opt_title = None\<rparr>"

definition ex_extend_options :: extend_options where
  "ex_extend_options =
     \<lparr>ext_continueAt = None, ext_tags = None, ext_title = None, ext_makeInstrumental = None\<rparr>"

definition ex_generation :: "string \<Rightarrow> track list \<Rightarrow> generation response" where
  "ex_generation g cs = \<lparr>resp_data = Some \<lparr>gen_id = g, clips = cs\<rparr>, resp_error = None\<rparr>"

definition ex_tracks :: "track list \<Rightarrow> track list response" where
  "ex_tracks ts = \<lparr>resp_data = Some ts, resp_error = None\<rparr>"

definition ex_due :: manager where
  "ex_due = initial_manager\<lparr>status := S_polling, progress := 0, generationId := Some ''g1'',
     tracks := [ex_track ''a'' T_streaming], pollAttemptsRef := 60,
     pollTimeoutRef := Some [''a'']\<rparr>"

text \<open>
  A generation under \<open>ex_small\<close> (one poll attempt) that times out: submit, one poll
  response with the track still streaming, then the timer.
\<close>

definition ex_timed_out :: "event list" where
  "ex_timed_out =
     [GenerateMusic ''upbeat pop about summer'' ex_options,
      GenerateSettles (Resolved (ex_generation ''g1'' [ex_track ''a'' T_queued])),
      PollSettles [''a''] ex_stamp (Resolved (ex_tracks [ex_track ''a'' T_streaming])),
      TimerFires]"

definition ex_scenario :: "event list" where
  "ex_scenario =
     [GenerateMusic ''upbeat pop about summer'' ex_options,
      GenerateSettles (Resolved (ex_generation ''g1'' [ex_track ''a'' T_queued, ex_track ''b'' T_queued])),
      PollSettles [''a'', ''b''] ex_stamp
        (Resolved (ex_tracks [ex_track ''a'' T_streaming, ex_track ''b'' T_streaming]))]"





section \<open>Properties of the cache\<close>

subsection \<open>Lookup\<close>

lemma getItem_removeItem: "getItem (removeItem k st) k' = (if k' = k then None else getItem st k')"
  by (simp add: getItem_def removeItem_def AList.delete_conv)

text \<open>
  C9. \<^verbatim>\<open>getCachedTrack\<close> returns the entry stored under the track's key when its
  \<^verbatim>\<open>cached_at\<close> is at most 24 hours before now, leaving everything unchanged; when the
  entry is older than 24 hours it returns not-found and the key is gone from the store
  (every other key keeps its value); when the key is absent it returns not-found; and in
  every case no call to the remote service is issued.
\<close>

theorem getCachedTrack_correct:
  "(getItem (storage m) (getCacheKey trackId) = None \<longrightarrow>
      getCachedTrack J now trackId m = (None, m)) \<and>
   (\<forall>v c. getItem (storage m) (getCacheKey trackId) = Some v \<and> truthy v \<and> parse J v = Some c \<longrightarrow>
      (now - cached_at c \<le> 24 * 60 * 60 * 1000 \<longrightarrow>
         getCachedTrack J now trackId m = (Some c, m)) \<and>
      (now - cached_at c > 24 * 60 * 60 * 1000 \<longrightarrow>
         fst (getCachedTrack J now trackId m) = None \<and>
         getItem (storage (snd (getCachedTrack J now trackId m))) (getCacheKey trackId) = None \<and>
         (\<forall>k. k \<noteq> getCacheKey trackId \<longrightarrow>
            getItem (storage (snd (getCachedTrack J now trackId m))) k = getItem (storage m) k))) \<and>
   sent (snd (getCachedTrack J now trackId m)) = sent m \<and>
   inflight (snd (getCachedTrack J now trackId m)) = inflight m"
  by (auto simp: getCachedTrack_def isCacheExpired_def CACHE_EXPIRY_HOURS_def
        getItem_removeItem split: option.splits)

theorem getCachedTrack_witness:
  "getCachedTrack ex_json 2000 ''none'' ex_store = (None, ex_store) \<and>
   getCachedTrack ex_json 2000 ''fresh'' ex_store = (Some (ex_cached ''fresh'' 1000), ex_store) \<and>
   fst (getCachedTrack ex_json 86400001 ''old'' ex_store) = None \<and>
   getItem (storage (snd (getCachedTrack ex_json 86400001 ''old'' ex_store))) ''suno_track_old'' = None \<and>
   getItem (storage (snd (getCachedTrack ex_json 86400001 ''old'' ex_store))) ''suno_track_fresh'' = Some ''fresh'' \<and>
   sent (snd (getCachedTrack ex_json 86400001 ''old'' ex_store)) = []"
  using getCachedTrack_correct [of ex_store "''none''" ex_json 2000]
        getCachedTrack_correct [of ex_store "''fresh''" ex_json 2000]
        getCachedTrack_correct [of ex_store "''old''" ex_json 86400001]
  by (simp add: ex_store_def ex_json_def initial_manager_def getItem_def getCacheKey_def
        CACHE_KEY_PREFIX_def truthy_def ex_cached_def cachedEntry_def ex_track_def track.defs
        cached_track.defs)

subsection \<open>Retention of the most-recent list\<close>

lemma cachedEntry_sel [simp]:
  "cached_at (cachedEntry t now lid) = now"
  "track_id (cachedEntry t now lid) = track_id t"
  "track_status (cachedEntry t now lid) = track_status t"
  "track.truncate (cachedEntry t now lid) = t"
  by (simp_all add: cachedEntry_def track.defs cached_track.defs)

lemma recent_first_last:
  "recent_first cs \<Longrightarrow> c \<in> set cs \<Longrightarrow> cached_at (last cs) \<le> cached_at c"
  by (induction cs) (auto simp: recent_first_def)

lemma getItem_setItem: "getItem (setItem k v st) k' = (if k' = k then Some v else getItem st k')"
  by (simp add: getItem_def setItem_def update_conv')

lemma getCacheKey_inj [simp]: "(getCacheKey a = getCacheKey b) = (a = b)"
  by (simp add: getCacheKey_def)

text \<open>
  C7. \<^verbatim>\<open>cacheTrack\<close> on a most-recent list that is ordered most recently cached first
  and holds no timestamp later than now: the list stays within \<^verbatim>\<open>maxCachedTracks\<close> and
  ordered most recently cached first; the new entry is stored under the track's remote id
  and stands at the front, and no other entry with that remote id remains (a re-put
  replaces the prior entry and moves it to the front); when the list already holds
  \<^verbatim>\<open>maxCachedTracks\<close> entries and the id is new, the entry dropped is the last one, whose
  \<^verbatim>\<open>cached_at\<close> is the oldest.
\<close>

theorem cacheTrack_retention:
  "recent_first (cachedTracks m) \<and> (\<forall>c\<in>set (cachedTracks m). cached_at c \<le> now) \<longrightarrow>
     length (cachedTracks (cacheTrack cfg J now lid t m)) \<le> maxCachedTracks cfg \<and>
     recent_first (cachedTracks (cacheTrack cfg J now lid t m)) \<and>
     (\<forall>c\<in>set (cachedTracks (cacheTrack cfg J now lid t m)). cached_at c \<le> now) \<and>
     getItem (storage (cacheTrack cfg J now lid t m)) (getCacheKey (track_id t)) =
       Some (stringify J (cachedEntry t now lid)) \<and>
     (0 < maxCachedTracks cfg \<longrightarrow>
        (\<exists>rest. cachedTracks (cacheTrack cfg J now lid t m) = cachedEntry t now lid # rest \<and>
                set rest \<subseteq> set (cachedTracks m) \<and>
                (\<forall>c\<in>set rest. track_id c \<noteq> track_id t))) \<and>
     (0 < maxCachedTracks cfg \<and> length (cachedTracks m) = maxCachedTracks cfg \<and>
      (\<forall>c\<in>set (cachedTracks m). track_id c \<noteq> track_id t) \<longrightarrow>
        cachedTracks (cacheTrack cfg J now lid t m) = cachedEntry t now lid # butlast (cachedTracks m) \<and>
        (\<forall>c\<in>set (cachedTracks m). cached_at (last (cachedTracks m)) \<le> cached_at c))"
proof (intro impI, elim conjE)
  let ?new = "cachedEntry t now lid"
  let ?kept = "filter (\<lambda>c. track_id c \<noteq> track_id t) (cachedTracks m)"
  let ?n = "maxCachedTracks cfg"
  assume ord: "recent_first (cachedTracks m)"
    and bound: "\<forall>c\<in>set (cachedTracks m). cached_at c \<le> now"
  have list: "cachedTracks (cacheTrack cfg J now lid t m) = take ?n (?new # ?kept)"
    by (simp add: cacheTrack_def Let_def)
  have full: "recent_first (?new # ?kept)"
    using ord bound by (auto simp: recent_first_def sorted_wrt_filter)
  have a: "length (cachedTracks (cacheTrack cfg J now lid t m)) \<le> ?n"
    by (simp add: list)
  have b: "recent_first (cachedTracks (cacheTrack cfg J now lid t m))"
    using full unfolding list recent_first_def by (rule sorted_wrt_take)
  have c: "\<forall>c\<in>set (cachedTracks (cacheTrack cfg J now lid t m)). cached_at c \<le> now"
  proof
    fix c assume "c \<in> set (cachedTracks (cacheTrack cfg J now lid t m))"
    then have "c \<in> set (?new # ?kept)" unfolding list by (rule in_set_takeD)
    then show "cached_at c \<le> now" using bound by auto
  qed
  have d: "getItem (storage (cacheTrack cfg J now lid t m)) (getCacheKey (track_id t)) =
       Some (stringify J ?new)"
    by (simp add: cacheTrack_def Let_def getItem_setItem)
  have e: "0 < ?n \<longrightarrow>
        (\<exists>rest. cachedTracks (cacheTrack cfg J now lid t m) = ?new # rest \<and>
                set rest \<subseteq> set (cachedTracks m) \<and>
                (\<forall>c\<in>set rest. track_id c \<noteq> track_id t))"
  proof
    assume "0 < ?n"
    then obtain k where k: "?n = Suc k" by (cases ?n) auto
    have "cachedTracks (cacheTrack cfg J now lid t m) = ?new # take k ?kept"
      by (simp add: list k)
    moreover have "set (take k ?kept) \<subseteq> set (cachedTracks m)"
      using set_take_subset [of k ?kept] by auto
    moreover have "\<forall>c\<in>set (take k ?kept). track_id c \<noteq> track_id t"
      using set_take_subset [of k ?kept] by auto
    ultimately show "\<exists>rest. cachedTracks (cacheTrack cfg J now lid t m) = ?new # rest \<and>
                set rest \<subseteq> set (cachedTracks m) \<and>
                (\<forall>c\<in>set rest. track_id c \<noteq> track_id t)"
      by blast
  qed
  have f: "0 < ?n \<and> length (cachedTracks m) = ?n \<and>
      (\<forall>c\<in>set (cachedTracks m). track_id c \<noteq> track_id t) \<longrightarrow>
        cachedTracks (cacheTrack cfg J now lid t m) = ?new # butlast (cachedTracks m) \<and>
        (\<forall>c\<in>set (cachedTracks m). cached_at (last (cachedTracks m)) \<le> cached_at c)"
  proof (intro impI, elim conjE)
    assume pos: "0 < ?n" and len: "length (cachedTracks m) = ?n"
      and fresh: "\<forall>c\<in>set (cachedTracks m). track_id c \<noteq> track_id t"
    obtain k where k: "?n = Suc k" using pos by (cases ?n) auto
    have kept: "?kept = cachedTracks m" using fresh by (simp add: filter_id_conv)
    have "take k (cachedTracks m) = butlast (cachedTracks m)"
      using len k by (simp add: butlast_conv_take)
    then have "cachedTracks (cacheTrack cfg J now lid t m) = ?new # butlast (cachedTracks m)"
      by (simp add: list k kept)
    moreover have "\<forall>c\<in>set (cachedTracks m). cached_at (last (cachedTracks m)) \<le> cached_at c"
      using ord by (auto intro: recent_first_last)
    ultimately show "cachedTracks (cacheTrack cfg J now lid t m) = ?new # butlast (cachedTracks m) \<and>
        (\<forall>c\<in>set (cachedTracks m). cached_at (last (cachedTracks m)) \<le> cached_at c)"
      by simp
  qed
  from a b c d e f show "length (cachedTracks (cacheTrack cfg J now lid t m)) \<le> maxCachedTracks cfg \<and>
     recent_first (cachedTracks (cacheTrack cfg J now lid t m)) \<and>
     (\<forall>c\<in>set (cachedTracks (cacheTrack cfg J now lid t m)). cached_at c \<le> now) \<and>
     getItem (storage (cacheTrack cfg J now lid t m)) (getCacheKey (track_id t)) =
       Some (stringify J (cachedEntry t now lid)) \<and>
     (0 < maxCachedTracks cfg \<longrightarrow>
        (\<exists>rest. cachedTracks (cacheTrack cfg J now lid t m) = cachedEntry t now lid # rest \<and>
                set rest \<subseteq> set (cachedTracks m) \<and>
                (\<forall>c\<in>set rest. track_id c \<noteq> track_id t))) \<and>
     (0 < maxCachedTracks cfg \<and> length (cachedTracks m) = maxCachedTracks cfg \<and>
      (\<forall>c\<in>set (cachedTracks m). track_id c \<noteq> track_id t) \<longrightarrow>
        cachedTracks (cacheTrack cfg J now lid t m) = cachedEntry t now lid # butlast (cachedTracks m) \<and>
        (\<forall>c\<in>set (cachedTracks m). cached_at (last (cachedTracks m)) \<le> cached_at c))"
    by blast
qed

theorem cacheTrack_retention_witness:
  "recent_first (cachedTracks ex_full) \<and> length (cachedTracks ex_full) = maxCachedTracks ex_small \<and>
   cachedTracks (cacheTrack ex_small ex_json 300 ''l'' (ex_track ''c'' T_complete) ex_full) =
     [cachedEntry (ex_track ''c'' T_complete) 300 ''l'', ex_cached ''b'' 200] \<and>
   cached_at (last (cachedTracks ex_full)) = 100 \<and>
   recent_first (cachedTracks (cacheTrack ex_small ex_json 300 ''l'' (ex_track ''a'' T_complete) ex_full)) \<and>
   length (cachedTracks (cacheTrack ex_small ex_json 300 ''l'' (ex_track ''a'' T_complete) ex_full)) \<le> 2"
  using cacheTrack_retention [where m = ex_full and cfg = ex_small and now = 300 and J = ex_json
          and lid = "''l''" and t = "ex_track ''c'' T_complete"]
        cacheTrack_retention [where m = ex_full and cfg = ex_small and now = 300 and J = ex_json
          and lid = "''l''" and t = "ex_track ''a'' T_complete"]
  by (simp add: ex_full_def ex_small_def initial_manager_def recent_first_def ex_cached_def
        ex_track_def)

subsection \<open>Listing the cache\<close>


lemma purged_Nil [simp]: "purged J now [] k = False"
  by (simp add: purged_def)







section \<open>Properties of the lifecycle manager\<close>

subsection \<open>What is written to the cache\<close>

lemma cacheTrack_frame [simp]:
  "status (cacheTrack cfg J now lid t m) = status m"
  "progress (cacheTrack cfg J now lid t m) = progress m"
  "tracks (cacheTrack cfg J now lid t m) = tracks m"
  "error (cacheTrack cfg J now lid t m) = error m"
  "generationId (cacheTrack cfg J now lid t m) = generationId m"
  "pollTimeoutRef (cacheTrack cfg J now lid t m) = pollTimeoutRef m"
  "pollAttemptsRef (cacheTrack cfg J now lid t m) = pollAttemptsRef m"
  "inflight (cacheTrack cfg J now lid t m) = inflight m"
  "sent (cacheTrack cfg J now lid t m) = sent m"
  by (simp_all add: cacheTrack_def Let_def)

lemma cacheAll_frame [simp]:
  "status (cacheAll cfg J stamp i ts m) = status m"
  "progress (cacheAll cfg J stamp i ts m) = progress m"
  "tracks (cacheAll cfg J stamp i ts m) = tracks m"
  "error (cacheAll cfg J stamp i ts m) = error m"
  "generationId (cacheAll cfg J stamp i ts m) = generationId m"
  "pollTimeoutRef (cacheAll cfg J stamp i ts m) = pollTimeoutRef m"
  "pollAttemptsRef (cacheAll cfg J stamp i ts m) = pollAttemptsRef m"
  "inflight (cacheAll cfg J stamp i ts m) = inflight m"
  "sent (cacheAll cfg J stamp i ts m) = sent m"
  by (induction ts arbitrary: i m; simp)+










lemma ex_track_sel [simp]:
  "track_id (ex_track i s) = i"
  "track_status (ex_track i s) = s"
  by (simp_all add: ex_track_def)


subsection \<open>Submitting\<close>

lemma issue_frame [simp]:
  "status (issue r m) = status m"
  "progress (issue r m) = progress m"
  "tracks (issue r m) = tracks m"
  "error (issue r m) = error m"
  "generationId (issue r m) = generationId m"
  "cachedTracks (issue r m) = cachedTracks m"
  "pollTimeoutRef (issue r m) = pollTimeoutRef m"
  "pollAttemptsRef (issue r m) = pollAttemptsRef m"
  "storage (issue r m) = storage m"
  "inflight (issue r m) = inflight m @ [r]"
  "sent (issue r m) = sent m @ [r]"
  by (simp_all add: issue_def)

text \<open>
  C6 (amended). When the awaited submit call settles, the hook is in \<^verbatim>\<open>polling\<close> only if
  the call fulfilled with a response that has data and no error, and then progress is 10,
  whether or not the clip list of the generation is empty; such a response does lead to
  \<^verbatim>\<open>polling\<close> with progress 10 unless polling starts automatically with an exhausted
  attempt budget; a rejected call, an error response and a response without data all
  lead to \<^verbatim>\<open>error\<close> with a message.
\<close>

theorem generateMusic_resume_outcome:
  "(status (generateMusic_resume cfg result m) = S_polling \<longrightarrow>
      progress (generateMusic_resume cfg result m) = 10 \<and>
      (\<exists>response g. result = Resolved response \<and> resp_error response = None \<and>
         resp_data response = Some g \<and> tracks (generateMusic_resume cfg result m) = clips g)) \<and>
   (\<forall>response g. result = Resolved response \<and> resp_error response = None \<and>
        resp_data response = Some g \<and>
        (autoStartPolling cfg \<longrightarrow> pollAttemptsRef m < maxPollAttempts cfg) \<longrightarrow>
      status (generateMusic_resume cfg result m) = S_polling \<and>
      progress (generateMusic_resume cfg result m) = 10) \<and>
   (\<not> (\<exists>response g. result = Resolved response \<and> resp_error response = None \<and>
          resp_data response = Some g) \<longrightarrow>
      status (generateMusic_resume cfg result m) = S_error \<and>
      error (generateMusic_resume cfg result m) \<noteq> None)"
  by (auto simp: generateMusic_resume_def pollForCompletion_call_def Let_def
        split: awaited.splits option.splits if_splits)

theorem generateMusic_empty_clips_counterexample:
  "map_option status (run default_config ex_json initial_manager
      [GenerateMusic ''upbeat pop about summer'' ex_options,
       GenerateSettles (Resolved (ex_generation ''g1'' []))]) = Some S_polling \<and>
   map_option progress (run default_config ex_json initial_manager
      [GenerateMusic ''upbeat pop about summer'' ex_options,
       GenerateSettles (Resolved (ex_generation ''g1'' []))]) = Some 10 \<and>
   map_option tracks (run default_config ex_json initial_manager
      [GenerateMusic ''upbeat pop about summer'' ex_options,
       GenerateSettles (Resolved (ex_generation ''g1'' []))]) = Some []"
  by (simp add: step_def generateMusic_call_def generateMusic_resume_def ex_generation_def
      pollForCompletion_call_def default_config_def initial_manager_def issue_def)

theorem generateMusic_resume_witness:
  "status (generateMusic_resume default_config
      (Resolved (ex_generation ''g1'' [ex_track ''a'' T_queued])) initial_manager) = S_polling \<and>
   progress (generateMusic_resume default_config
      (Resolved (ex_generation ''g1'' [ex_track ''a'' T_queued])) initial_manager) = 10 \<and>
   status (generateMusic_resume default_config (Threw None) initial_manager) = S_error"
  using generateMusic_resume_outcome [of default_config
          "Resolved (ex_generation ''g1'' [ex_track ''a'' T_queued])" initial_manager]
        generateMusic_resume_outcome [of default_config "Threw None" initial_manager]
  by (simp add: ex_generation_def default_config_def initial_manager_def)

subsection \<open>Timeout\<close>




lemma timeout_literal:
  "TIMEOUT_MESSAGE \<noteq> ''Polling failed''"
  "TIMEOUT_MESSAGE \<noteq> NO_API_KEY_MESSAGE"
  "TIMEOUT_MESSAGE \<noteq> ''Unknown network error''"
  "TIMEOUT_MESSAGE \<noteq> ''HTTP '' @ rest"
  by (simp_all add: TIMEOUT_MESSAGE_def NO_API_KEY_MESSAGE_def)

text \<open>
  C5. A call of \<^verbatim>\<open>pollForCompletion\<close> that finds the attempt counter at or above
  \<^verbatim>\<open>maxPollAttempts\<close> sets status \<^verbatim>\<open>error\<close> with the timeout message and sends nothing;
  when it is the pending timer that makes this call and no request is in flight, no timer
  or settling event is enabled afterwards, so no further fetch happens. The timeout
  message differs from every text the code itself supplies for a failed poll request
  (the fallback literals and \<^verbatim>\<open>HTTP <status>\<close>); a failed poll otherwise shows the message
  carried by the thrown error or the error response.
\<close>

theorem poll_timeout:
  "(maxPollAttempts cfg \<le> pollAttemptsRef m \<longrightarrow>
      status (pollForCompletion_call cfg ids m) = S_error \<and>
      error (pollForCompletion_call cfg ids m) = Some TIMEOUT_MESSAGE \<and>
      sent (pollForCompletion_call cfg ids m) = sent m \<and>
      inflight (pollForCompletion_call cfg ids m) = inflight m \<and>
      (pollTimeoutRef m = Some ids \<longrightarrow>
         (\<exists>m'. step cfg J m TimerFires = Some m' \<and> status m' = S_error \<and>
            error m' = Some TIMEOUT_MESSAGE \<and> sent m' = sent m \<and> pollTimeoutRef m' = None \<and>
            (inflight m = [] \<longrightarrow> (\<forall>ev. internal ev \<longrightarrow> step cfg J m' ev = None))))) \<and>
   error (pollForCompletion_resume cfg J stamp ids (Threw e) m) =
     Some (thrownMessage e ''Polling failed'') \<and>
   (\<forall>er. resp_error response = Some er \<longrightarrow>
      error (pollForCompletion_resume cfg J stamp ids (Resolved response) m) = Some (err_message er)) \<and>
   TIMEOUT_MESSAGE \<noteq> ''Polling failed'' \<and>
   TIMEOUT_MESSAGE \<noteq> NO_API_KEY_MESSAGE \<and>
   TIMEOUT_MESSAGE \<noteq> ''Unknown network error'' \<and>
   (\<forall>n. TIMEOUT_MESSAGE \<noteq> ''HTTP '' @ string_of_nat n)"
proof -
  have a: "maxPollAttempts cfg \<le> pollAttemptsRef m \<longrightarrow>
      status (pollForCompletion_call cfg ids m) = S_error \<and>
      error (pollForCompletion_call cfg ids m) = Some TIMEOUT_MESSAGE \<and>
      sent (pollForCompletion_call cfg ids m) = sent m \<and>
      inflight (pollForCompletion_call cfg ids m) = inflight m"
    by (simp add: pollForCompletion_call_def)
  have b: "maxPollAttempts cfg \<le> pollAttemptsRef m \<and> pollTimeoutRef m = Some ids \<longrightarrow>
         (\<exists>m'. step cfg J m TimerFires = Some m' \<and> status m' = S_error \<and>
            error m' = Some TIMEOUT_MESSAGE \<and> sent m' = sent m \<and> pollTimeoutRef m' = None \<and>
            (inflight m = [] \<longrightarrow> (\<forall>ev. internal ev \<longrightarrow> step cfg J m' ev = None)))"
  proof (intro impI, elim conjE)
    assume h: "maxPollAttempts cfg \<le> pollAttemptsRef m" "pollTimeoutRef m = Some ids"
    let ?m' = "m\<lparr>pollTimeoutRef := None, error := Some TIMEOUT_MESSAGE, status := S_error\<rparr>"
    have s: "step cfg J m TimerFires = Some ?m'"
      using h by (simp add: step_def pollForCompletion_call_def)
    have "inflight m = [] \<longrightarrow> (\<forall>ev. internal ev \<longrightarrow> step cfg J ?m' ev = None)"
    proof (intro impI allI)
      fix ev assume "inflight m = []" "internal ev"
      then show "step cfg J ?m' ev = None"
        by (cases ev) (simp_all add: step_def)
    qed
    with s show "\<exists>m'. step cfg J m TimerFires = Some m' \<and> status m' = S_error \<and>
            error m' = Some TIMEOUT_MESSAGE \<and> sent m' = sent m \<and> pollTimeoutRef m' = None \<and>
            (inflight m = [] \<longrightarrow> (\<forall>ev. internal ev \<longrightarrow> step cfg J m' ev = None))"
      by simp
  qed
  have c: "error (pollForCompletion_resume cfg J stamp ids (Threw e) m) =
     Some (thrownMessage e ''Polling failed'')"
    by (simp add: pollForCompletion_resume_def)
  have d: "\<forall>er. resp_error response = Some er \<longrightarrow>
      error (pollForCompletion_resume cfg J stamp ids (Resolved response) m) = Some (err_message er)"
    by (simp add: pollForCompletion_resume_def)
  from a b c d timeout_literal show ?thesis by blast
qed

theorem poll_timeout_witness:
  "maxPollAttempts default_config \<le> pollAttemptsRef ex_due \<and>
   pollTimeoutRef ex_due = Some [''a''] \<and>
   map_option status (step default_config ex_json ex_due TimerFires) = Some S_error \<and>
   map_option error (step default_config ex_json ex_due TimerFires) = Some (Some TIMEOUT_MESSAGE) \<and>
   map_option sent (step default_config ex_json ex_due TimerFires) = Some []"
proof -
  have h: "maxPollAttempts default_config \<le> pollAttemptsRef ex_due"
    "pollTimeoutRef ex_due = Some [''a'']"
    by (simp_all add: default_config_def ex_due_def initial_manager_def)
  from poll_timeout [of default_config ex_due "[''a'']" ex_json, THEN conjunct1] h
  obtain m' where "step default_config ex_json ex_due TimerFires = Some m'"
    "status m' = S_error" "error m' = Some TIMEOUT_MESSAGE" "sent m' = sent ex_due"
    by blast
  then show ?thesis using h by (simp add: ex_due_def initial_manager_def)
qed

subsection \<open>Resets at a new submit\<close>

lemmas eval_defs =
  step_def generateMusic_call_def generateMusic_resume_def extendTrack_call_def
  extendTrack_resume_def pollForCompletion_call_def pollForCompletion_resume_def
  cancelGeneration_call_def cancelGeneration_resume_def issue_def isTerminal_def
  ex_generation_def ex_tracks_def ex_track_def initial_manager_def truthy_def

lemma generateMusic_call_resets:
  "status (generateMusic_call p options m) = S_generating \<and>
   progress (generateMusic_call p options m) = 0 \<and>
   error (generateMusic_call p options m) = None \<and>
   tracks (generateMusic_call p options m) = [] \<and>
   pollAttemptsRef (generateMusic_call p options m) = 0"
  by (simp add: generateMusic_call_def)

lemma extendTrack_call_resets:
  "status (extendTrack_call trackId p options m) = S_generating \<and>
   progress (extendTrack_call trackId p options m) = 0 \<and>
   error (extendTrack_call trackId p options m) = None \<and>
   tracks (extendTrack_call trackId p options m) = tracks m \<and>
   pollAttemptsRef (extendTrack_call trackId p options m) = pollAttemptsRef m"
  by (simp add: extendTrack_call_def)

text \<open>
  C4 on the code. After the timed-out generation, \<^verbatim>\<open>extendTrack\<close> resets status, error
  and progress but leaves the track list and the attempt counter as they were; when its
  submit call then succeeds, the first poll finds the counter still at the maximum and
  reports a timeout without sending a single fetch. \<^verbatim>\<open>generateMusic\<close> from the same
  state resets both.
\<close>

theorem extendTrack_keeps_counter:
  "map_option pollAttemptsRef (run ex_small ex_json initial_manager ex_timed_out) = Some 1 \<and>
   map_option pollAttemptsRef (run ex_small ex_json initial_manager
      (ex_timed_out @ [ExtendTrack ''a'' ''one more verse'' ex_extend_options])) = Some 1 \<and>
   map_option tracks (run ex_small ex_json initial_manager
      (ex_timed_out @ [ExtendTrack ''a'' ''one more verse'' ex_extend_options]))
     = Some [ex_track ''a'' T_streaming] \<and>
   map_option status (run ex_small ex_json initial_manager
      (ex_timed_out @ [ExtendTrack ''a'' ''one more verse'' ex_extend_options,
         ExtendSettles (Resolved (ex_generation ''g2'' [ex_track ''b'' T_queued]))])) = Some S_error \<and>
   map_option error (run ex_small ex_json initial_manager
      (ex_timed_out @ [ExtendTrack ''a'' ''one more verse'' ex_extend_options,
         ExtendSettles (Resolved (ex_generation ''g2'' [ex_track ''b'' T_queued]))]))
     = Some (Some TIMEOUT_MESSAGE) \<and>
   map_option (\<lambda>m. ReqGetTracks [''b''] \<in> set (sent m)) (run ex_small ex_json initial_manager
      (ex_timed_out @ [ExtendTrack ''a'' ''one more verse'' ex_extend_options,
         ExtendSettles (Resolved (ex_generation ''g2'' [ex_track ''b'' T_queued]))])) = Some False \<and>
   map_option pollAttemptsRef (run ex_small ex_json initial_manager
      (ex_timed_out @ [GenerateMusic ''again'' ex_options])) = Some 0 \<and>
   map_option tracks (run ex_small ex_json initial_manager
      (ex_timed_out @ [GenerateMusic ''again'' ex_options])) = Some []"
  by (simp add: ex_timed_out_def ex_small_def eval_defs)

subsection \<open>Progress\<close>

lemma terminal_count_less:
  "\<not> list_all isTerminal ts \<Longrightarrow> length (filter isTerminal ts) < length ts"
  by (induction ts) (auto simp: less_Suc_eq_le)

lemma terminal_count_all:
  "list_all isTerminal ts \<Longrightarrow> length (filter isTerminal ts) = length ts"
  by (induction ts) auto

lemma ratio_below_100:
  assumes "c < n"
  shows "(of_nat c / of_nat n) * (100::rat) < 100" and "0 \<le> (of_nat c / of_nat n) * (100::rat)"
proof -
  from assms have "(of_nat c :: rat) < of_nat n" and "(0::rat) < of_nat n" by simp_all
  then have "(of_nat c / of_nat n :: rat) < 1" by (simp add: divide_less_eq_1)
  moreover have "\<And>x::rat. x < 1 \<Longrightarrow> x * 100 < 100" by simp
  ultimately show "(of_nat c / of_nat n) * (100::rat) < 100" by blast
  have "(0::rat) \<le> of_nat c / of_nat n" by simp
  moreover have "\<And>x::rat. 0 \<le> x \<Longrightarrow> 0 \<le> x * 100" by simp
  ultimately show "0 \<le> (of_nat c / of_nat n) * (100::rat)" by blast
qed

lemma poll_resume_progress:
  assumes "resp_error response = None" and "resp_data response = Some ts"
  shows "progress (pollForCompletion_resume cfg J stamp ids (Resolved response) m) =
     (if list_all isTerminal ts then 100
      else (of_nat (length (filter isTerminal ts)) / of_nat (length ts)) * 100)"
    and "status (pollForCompletion_resume cfg J stamp ids (Resolved response) m) =
     (if list_all isTerminal ts then S_completed else status m)"
proof -
  show "progress (pollForCompletion_resume cfg J stamp ids (Resolved response) m) =
     (if list_all isTerminal ts then 100
      else (of_nat (length (filter isTerminal ts)) / of_nat (length ts)) * 100)"
  proof (cases "list_all isTerminal ts")
    case True
    then show ?thesis using assms by (simp add: pollForCompletion_resume_def Let_def)
  next
    case False
    from ratio_below_100 [OF terminal_count_less [OF False]]
    have "min ((of_nat (length (filter isTerminal ts)) / of_nat (length ts)) * (100::rat)) 100 =
        (of_nat (length (filter isTerminal ts)) / of_nat (length ts)) * 100"
      by (simp add: min_def)
    then show ?thesis using False assms by (simp add: pollForCompletion_resume_def Let_def)
  qed
  show "status (pollForCompletion_resume cfg J stamp ids (Resolved response) m) =
     (if list_all isTerminal ts then S_completed else status m)"
    using assms by (simp add: pollForCompletion_resume_def Let_def)
qed

lemma poll_call_status:
  "status (pollForCompletion_call cfg ids m) = S_completed \<Longrightarrow> status m = S_completed"
  by (auto simp: pollForCompletion_call_def split: if_splits)

lemma poll_resume_completed_progress:
  "status (pollForCompletion_resume cfg J stamp ids result m) = S_completed \<Longrightarrow>
   status m = S_completed \<or> progress (pollForCompletion_resume cfg J stamp ids result m) = 100"
  by (auto simp: pollForCompletion_resume_def Let_def split: awaited.splits option.splits if_splits)

lemma submit_resume_status:
  "status (generateMusic_resume cfg result m) \<noteq> S_completed"
  "status (extendTrack_resume cfg result m) \<noteq> S_completed"
  by (auto simp: generateMusic_resume_def extendTrack_resume_def pollForCompletion_call_def Let_def
        split: awaited.splits option.splits if_splits)

lemma cancel_status:
  "status (cancelGeneration_call m) = S_completed \<Longrightarrow> status m = S_completed"
  "status (cancelGeneration_resume answer m) = S_completed \<Longrightarrow> status m = S_completed"
  by (auto simp: cancelGeneration_call_def cancelGeneration_resume_def Let_def
        split: awaited.splits option.splits if_splits)

lemma step_completed:
  assumes "step cfg J m ev = Some m'" and "status m' = S_completed"
  shows "status m = S_completed \<or> progress m' = 100"
proof (cases ev)
  case (GenerateMusic p options)
  with assms show ?thesis by (auto simp: step_def generateMusic_call_def)
next
  case (ExtendTrack trackId p options)
  with assms show ?thesis by (auto simp: step_def extendTrack_call_def)
next
  case CancelGeneration
  with assms show ?thesis by (auto simp: step_def dest: cancel_status)
next
  case TimerFires
  with assms show ?thesis
    by (auto simp: step_def split: option.splits dest!: poll_call_status)
next
  case (GenerateSettles result)
  with assms show ?thesis by (auto simp: step_def submit_resume_status)
next
  case (ExtendSettles result)
  with assms show ?thesis by (auto simp: step_def submit_resume_status)
next
  case (PollSettles ids stamp result)
  with assms show ?thesis
    by (auto simp: step_def dest!: poll_resume_completed_progress)
next
  case (CancelSettles result)
  with assms show ?thesis by (auto simp: step_def dest: cancel_status)
qed

text \<open>
  C1 (amended). Progress is 10 whenever a settled submit or extension leaves the hook in
  \<^verbatim>\<open>polling\<close>, and it is exactly 100 after every step that makes the status
  \<^verbatim>\<open>completed\<close>. A poll response that leaves a track non-terminal keeps the status and
  sets progress to terminal count / track count * 100 of that response, a value from 0 up
  to but excluding 100 that does not depend on the progress before. From one poll response
  to another, progress does not decrease when both report the same number of tracks and
  the later one reports at least as many terminal tracks.
\<close>

theorem poll_progress:
  "(status (generateMusic_resume cfg submitted m) = S_polling \<longrightarrow>
      progress (generateMusic_resume cfg submitted m) = 10) \<and>
   (status (extendTrack_resume cfg submitted m) = S_polling \<longrightarrow>
      progress (extendTrack_resume cfg submitted m) = 10) \<and>
   (\<forall>m'. step cfg J m ev = Some m' \<and> status m \<noteq> S_completed \<and> status m' = S_completed \<longrightarrow>
      progress m' = 100) \<and>
   (resp_error response = None \<and> resp_data response = Some ts \<and> \<not> list_all isTerminal ts \<longrightarrow>
      status (pollForCompletion_resume cfg J stamp ids (Resolved response) m) = status m \<and>
      progress (pollForCompletion_resume cfg J stamp ids (Resolved response) m) =
        (of_nat (length (filter isTerminal ts)) / of_nat (length ts)) * 100 \<and>
      0 \<le> progress (pollForCompletion_resume cfg J stamp ids (Resolved response) m) \<and>
      progress (pollForCompletion_resume cfg J stamp ids (Resolved response) m) < 100) \<and>
   (\<forall>(response' :: track list response) ts' stamp' m2.
      resp_error response = None \<and> resp_data response = Some ts \<and>
      resp_error response' = None \<and> resp_data response' = Some ts' \<and>
      length ts' = length ts \<and>
      length (filter isTerminal ts) \<le> length (filter isTerminal ts') \<longrightarrow>
      progress (pollForCompletion_resume cfg J stamp ids (Resolved response) m) \<le>
      progress (pollForCompletion_resume cfg J stamp' ids (Resolved response') m2))"
proof -
  have a: "status (generateMusic_resume cfg submitted m) = S_polling \<longrightarrow>
      progress (generateMusic_resume cfg submitted m) = 10"
    by (auto simp: generateMusic_resume_def pollForCompletion_call_def Let_def
          split: awaited.splits option.splits if_splits)
  have a': "status (extendTrack_resume cfg submitted m) = S_polling \<longrightarrow>
      progress (extendTrack_resume cfg submitted m) = 10"
    by (auto simp: extendTrack_resume_def pollForCompletion_call_def Let_def
          split: awaited.splits option.splits if_splits)
  have b: "\<forall>m'. step cfg J m ev = Some m' \<and> status m \<noteq> S_completed \<and> status m' = S_completed \<longrightarrow>
      progress m' = 100"
    using step_completed by blast
  have c: "resp_error response = None \<and> resp_data response = Some ts \<and> \<not> list_all isTerminal ts \<longrightarrow>
      status (pollForCompletion_resume cfg J stamp ids (Resolved response) m) = status m \<and>
      progress (pollForCompletion_resume cfg J stamp ids (Resolved response) m) =
        (of_nat (length (filter isTerminal ts)) / of_nat (length ts)) * 100 \<and>
      0 \<le> progress (pollForCompletion_resume cfg J stamp ids (Resolved response) m) \<and>
      progress (pollForCompletion_resume cfg J stamp ids (Resolved response) m) < 100"
    using ratio_below_100 [OF terminal_count_less, of ts]
    by (simp add: poll_resume_progress)
  have d: "\<forall>(response' :: track list response) ts' stamp' m2.
      resp_error response = None \<and> resp_data response = Some ts \<and>
      resp_error response' = None \<and> resp_data response' = Some ts' \<and>
      length ts' = length ts \<and>
      length (filter isTerminal ts) \<le> length (filter isTerminal ts') \<longrightarrow>
      progress (pollForCompletion_resume cfg J stamp ids (Resolved response) m) \<le>
      progress (pollForCompletion_resume cfg J stamp' ids (Resolved response') m2)"
  proof (intro allI impI, elim conjE)
    fix response' :: "track list response" and ts' stamp' m2
    assume r: "resp_error response = None" "resp_data response = Some ts"
      and r': "resp_error response' = None" "resp_data response' = Some ts'"
      and len: "length ts' = length ts"
      and cnt: "length (filter isTerminal ts) \<le> length (filter isTerminal ts')"
    show "progress (pollForCompletion_resume cfg J stamp ids (Resolved response) m) \<le>
      progress (pollForCompletion_resume cfg J stamp' ids (Resolved response') m2)"
    proof (cases "list_all isTerminal ts'")
      case True
      have "progress (pollForCompletion_resume cfg J stamp ids (Resolved response) m) \<le> 100"
        using ratio_below_100 (1) [OF terminal_count_less, of ts]
        by (cases "list_all isTerminal ts") (simp_all add: poll_resume_progress [OF r])
      then show ?thesis using True by (simp add: poll_resume_progress [OF r'])
    next
      case False
      from terminal_count_less [OF False] cnt len
      have "length (filter isTerminal ts) < length ts" by simp
      then have nt: "\<not> list_all isTerminal ts" using terminal_count_all by fastforce
      have "(of_nat (length (filter isTerminal ts)) :: rat) \<le> of_nat (length (filter isTerminal ts'))"
        using cnt by simp
      then have "(of_nat (length (filter isTerminal ts)) / of_nat (length ts) :: rat) \<le>
          of_nat (length (filter isTerminal ts')) / of_nat (length ts)"
        by (rule divide_right_mono) simp
      then have "(of_nat (length (filter isTerminal ts)) / of_nat (length ts)) * (100::rat) \<le>
          (of_nat (length (filter isTerminal ts')) / of_nat (length ts)) * 100"
        by (rule mult_right_mono) simp
      moreover have "progress (pollForCompletion_resume cfg J stamp ids (Resolved response) m) =
          (of_nat (length (filter isTerminal ts)) / of_nat (length ts)) * 100"
        using nt by (simp add: poll_resume_progress [OF r])
      moreover have "progress (pollForCompletion_resume cfg J stamp' ids (Resolved response') m2) =
          (of_nat (length (filter isTerminal ts')) / of_nat (length ts)) * 100"
        using False len by (simp add: poll_resume_progress [OF r'])
      ultimately show ?thesis by simp
    qed
  qed
  from a a' b c d show ?thesis by blast
qed

theorem progress_drops_counterexample:
  "map_option status (run default_config ex_json initial_manager (take 2 ex_scenario)) = Some S_polling \<and>
   map_option progress (run default_config ex_json initial_manager (take 2 ex_scenario)) = Some 10 \<and>
   map_option status (run default_config ex_json initial_manager ex_scenario) = Some S_polling \<and>
   map_option progress (run default_config ex_json initial_manager ex_scenario) = Some 0"
  by (simp add: ex_scenario_def default_config_def eval_defs)

theorem poll_progress_witness:
  "progress (pollForCompletion_resume default_config ex_json ex_stamp [''a'', ''b'']
      (Resolved (ex_tracks [ex_track ''a'' T_complete, ex_track ''b'' T_streaming])) ex_due) = 50 \<and>
   status (pollForCompletion_resume default_config ex_json ex_stamp [''a'', ''b'']
      (Resolved (ex_tracks [ex_track ''a'' T_complete, ex_track ''b'' T_streaming])) ex_due) = S_polling"
proof -
  have h: "resp_error (ex_tracks [ex_track ''a'' T_complete, ex_track ''b'' T_streaming]) = None \<and>
      resp_data (ex_tracks [ex_track ''a'' T_complete, ex_track ''b'' T_streaming]) =
        Some [ex_track ''a'' T_complete, ex_track ''b'' T_streaming] \<and>
      \<not> list_all isTerminal [ex_track ''a'' T_complete, ex_track ''b'' T_streaming]"
    by (simp add: ex_tracks_def isTerminal_def)
  from poll_progress [where cfg = default_config and J = ex_json and stamp = ex_stamp
      and ids = "[''a'', ''b'']" and m = ex_due
      and response = "ex_tracks [ex_track ''a'' T_complete, ex_track ''b'' T_streaming]"
      and ts = "[ex_track ''a'' T_complete, ex_track ''b'' T_streaming]",
      THEN conjunct2, THEN conjunct2, THEN conjunct2, THEN conjunct1, rule_format, OF h]
  show ?thesis by (simp add: isTerminal_def ex_due_def)
qed

subsection \<open>Cancellation\<close>








section \<open>Properties of the remote service wrapper\<close>






end
